theory Spec2Isabelle
  imports Main "HOL-Library.Char_ord" "HOL-Library.List_Lexorder"
begin

section \<open>Data of the chat room component\<close>

text \<open>
  The repository holds three variants of the React component \<^verbatim>\<open>App\<close>:
  \<^verbatim>\<open>src/src/App.jsx\<close> (no listener cleanup at all), \<^verbatim>\<open>src/unnamed/part_000\<close>
  (listener cleanup through \<^verbatim>\<open>cleanupRef\<close>, \<^verbatim>\<open>pushCleanup\<close>, \<^verbatim>\<open>runCleanup\<close>) and
  \<^verbatim>\<open>src/unnamed/part_001\<close> (a cleanup closure stored on \<^verbatim>\<open>roomRef.current._cleanup\<close>).
  The functions of \<^verbatim>\<open>src/src/App.jsx\<close> keep their names; those of the two other files
  carry the suffix \<open>_000\<close> and \<open>_001\<close>.

  The React state variables and refs of the component are the fields of one record,
  passed explicitly. A state variable is read from the state the function is invoked
  on, that is, every function is invoked from the latest render. An \<^verbatim>\<open>async\<close> function
  is run to completion in one step; what the realtime database answers to its calls
  (a rejected write, a throwing unsubscribe, the key generated by \<^verbatim>\<open>push\<close>, the clock)
  is an input of the step, the record \<open>env\<close>.
\<close>

text \<open>The value stored under \<^verbatim>\<open>rooms/{id}/participants/{userId}\<close>.\<close>

record participant =
  pid :: string
  pname :: string
  joinedAt :: int

text \<open>
  The value stored under \<^verbatim>\<open>rooms/{id}/messages/{key}\<close> (\<open>payload\<close>), and the local
  message built from it by the child-added callback, which adds the snapshot key as
  \<^verbatim>\<open>id\<close> (\<open>msg_id\<close>). The field \<^verbatim>\<open>text\<close> is \<open>body\<close> here.
\<close>

record payload =
  fromId :: string
  fromName :: string
  body :: string
  sentAt :: int

record message = payload +
  msg_id :: string

text \<open>
  Database references: \<^verbatim>\<open>ref(db, `rooms/${id}`)\<close> is \<open>RoomPath id\<close>,
  \<^verbatim>\<open>rooms/${id}/messages\<close> is \<open>MessagesPath id\<close>, \<^verbatim>\<open>rooms/${id}/participants\<close> is
  \<open>ParticipantsPath id\<close>, \<^verbatim>\<open>rooms/${id}/participants/${uid}\<close> is \<open>ParticipantPath id uid\<close>
  and the reference returned by \<^verbatim>\<open>push\<close> under the messages is \<open>MessagePath id key\<close>.
\<close>

datatype path =
    RoomPath string
  | MessagesPath string
  | ParticipantsPath string
  | ParticipantPath string string
  | MessagePath string string

fun room_of :: "path \<Rightarrow> string" where
  "room_of (RoomPath r) = r"
| "room_of (MessagesPath r) = r"
| "room_of (ParticipantsPath r) = r"
| "room_of (ParticipantPath r u) = r"
| "room_of (MessagePath r k) = r"

text \<open>What the component asks of the database, in the order it asks.\<close>

datatype stored =
    RoomRecord int
  | ParticipantRecord participant
  | MessageRecord payload

datatype effect =
    SetAt path stored
  | RemoveAt path
  | OnDisconnectRemove path

text \<open>
  A registered listener: the handle stands for the \<^verbatim>\<open>Unsubscribe\<close> function returned
  by \<^verbatim>\<open>onValue\<close> / \<^verbatim>\<open>onChildAdded\<close>, \<open>callback\<close> says which of the three callbacks of
  \<^verbatim>\<open>joinRoom\<close> it runs, \<open>onlyOnce\<close> is the option of the room check, and \<open>limitToLast\<close>
  the bound of the query it listens on.
\<close>

datatype callback = ParticipantsCallback | MessagesCallback | EnsureRoomCallback

record listener =
  handle :: nat
  target :: path
  callback :: callback
  onlyOnce :: bool
  limitToLast :: "nat option"

text \<open>
  An entry of \<^verbatim>\<open>cleanupRef.current\<close> (part_000): the arrow function that calls the
  unsubscribe function of a listener, or a value that is not a function (which
  \<^verbatim>\<open>runCleanup\<close> skips).
\<close>

datatype cleanup = Closer nat | NotAFunction

datatype error = WriteRejected

record env =
  now :: int
  setFails :: "path \<Rightarrow> bool"
  onDisconnectThrows :: bool
  unsubThrows :: "nat \<Rightarrow> bool"
  pushKey :: string
  randomId :: string

text \<open>
  \<open>now\<close> is \<^verbatim>\<open>Date.now()\<close>, \<open>setFails p\<close> says that the promise of \<^verbatim>\<open>set\<close> on \<open>p\<close> is
  rejected, \<open>onDisconnectThrows\<close> that \<^verbatim>\<open>onDisconnect(pRef).remove()\<close> throws,
  \<open>unsubThrows h\<close> that the unsubscribe function of handle \<open>h\<close> throws, \<open>pushKey\<close> is the
  key \<^verbatim>\<open>push\<close> generates and \<open>randomId\<close> the room code \<^verbatim>\<open>createRoom\<close> draws. A rejected
  \<^verbatim>\<open>remove\<close> is caught by \<^verbatim>\<open>leaveRoom\<close> and changes nothing, so it is no input.
\<close>

record state =
  roomId :: string
  inRoom :: bool
  messages :: "message list"
  participants :: "string \<rightharpoonup> participant"
  localText :: string
  name :: string
  userIdRef :: string
  roomRef :: "path option"
  messagesRef :: "path option"
  participantsRef :: "path option"
  cleanupRef :: "cleanup list"
  roomRef_cleanup :: "(nat \<times> nat \<times> nat) option"
  listeners :: "listener list"
  nextHandle :: nat
  feedLog :: "effect list"
  alerts :: "string list"

text \<open>
  \<open>cleanupRef\<close> is used by part_000 only and \<open>roomRef_cleanup\<close> (the property
  \<^verbatim>\<open>_cleanup\<close> of the object in \<^verbatim>\<open>roomRef.current\<close>) by part_001 only. The last four
  fields are the world outside the component: the listeners the database holds for
  it, the next fresh handle, the writes attempted and the alerts shown.
\<close>

definition initial :: "string \<Rightarrow> string \<Rightarrow> state" where
  "initial uid nm =
     \<lparr>roomId = [], inRoom = False, messages = [], participants = Map.empty,
      localText = [], name = nm, userIdRef = uid,
      roomRef = None, messagesRef = None, participantsRef = None,
      cleanupRef = [], roomRef_cleanup = None,
      listeners = [], nextHandle = 0, feedLog = [], alerts = []\<rparr>"

section \<open>Listeners\<close>

text \<open>\<^verbatim>\<open>onValue(ref, cb, opts)\<close> and \<^verbatim>\<open>onChildAdded(query, cb)\<close>: register, return the handle.\<close>

definition subscribe ::
  "path \<Rightarrow> callback \<Rightarrow> bool \<Rightarrow> nat option \<Rightarrow> state \<Rightarrow> nat \<times> state" where
  "subscribe p cb once lim s =
     (nextHandle s,
      s\<lparr>listeners := listeners s @
           [\<lparr>handle = nextHandle s, target = p, callback = cb, onlyOnce = once,
             limitToLast = lim\<rparr>],
        nextHandle := Suc (nextHandle s)\<rparr>)"

text \<open>Calling the unsubscribe function of handle \<open>h\<close>; on a closed handle it does nothing.\<close>

definition unsubscribe :: "nat \<Rightarrow> state \<Rightarrow> state" where
  "unsubscribe h s = s\<lparr>listeners := filter (\<lambda>l. handle l \<noteq> h) (listeners s)\<rparr>"

text \<open>
  \<^verbatim>\<open>try { unsub && typeof unsub === "function" && unsub() } catch {}\<close>: when the
  unsubscribe function throws, the exception is caught and the listener is taken to be
  still registered.
\<close>

definition tryUnsubscribe :: "env \<Rightarrow> nat \<Rightarrow> state \<Rightarrow> state" where
  "tryUnsubscribe e h s = (if unsubThrows e h then s else unsubscribe h s)"

section \<open>The callbacks\<close>

text \<open>\<^verbatim>\<open>const val = snap.val() || {}; setParticipants(val)\<close>\<close>

definition participantsValue ::
  "(string \<rightharpoonup> participant) option \<Rightarrow> (string \<rightharpoonup> participant)" where
  "participantsValue v = (case v of None \<Rightarrow> Map.empty | Some m \<Rightarrow> m)"

text \<open>
  The updater given to \<^verbatim>\<open>setMessages\<close>:
  \<^verbatim>\<open>(prev) => { if (prev.some((m) => m.id === msg.id)) return prev; return [...prev, msg]; }\<close>
\<close>

definition appendMessage :: "message \<Rightarrow> message list \<Rightarrow> message list" where
  "appendMessage msg prev =
     (if list_ex (\<lambda>m. msg_id m = msg_id msg) prev then prev else prev @ [msg])"

text \<open>
  The child-added callback on the messages: \<open>None\<close> is a falsy \<^verbatim>\<open>snap.val()\<close>
  (\<^verbatim>\<open>if (!val) return\<close>).
\<close>

definition messageAdded :: "string \<Rightarrow> payload option \<Rightarrow> message list \<Rightarrow> message list" where
  "messageAdded key val prev =
     (case val of
        None \<Rightarrow> prev
      | Some v \<Rightarrow>
          appendMessage
            \<lparr>fromId = fromId v, fromName = fromName v, body = body v, sentAt = sentAt v,
             msg_id = key\<rparr> prev)"


section \<open>Pieces shared by the variants\<close>

text \<open>
  \<^verbatim>\<open>localText.trim()\<close>: white space and line terminators of ECMAScript among the
  characters below 256.
\<close>

definition isWhiteSpace :: "char \<Rightarrow> bool" where
  "isWhiteSpace c =
     (c \<in> set [CHR 0x09, CHR 0x0A, CHR 0x0B, CHR 0x0C, CHR 0x0D, CHR 0x20, CHR 0xA0])"

definition trim :: "string \<Rightarrow> string" where
  "trim t = rev (dropWhile isWhiteSpace (rev (dropWhile isWhiteSpace t)))"

text \<open>
  \<^verbatim>\<open>setRoomId(id); setInRoom(true); roomRef.current = ref(db, `rooms/${id}`); ...\<close>
\<close>

definition openRoom :: "string \<Rightarrow> state \<Rightarrow> state" where
  "openRoom rid s =
     s\<lparr>roomId := rid, inRoom := True,
       roomRef := Some (RoomPath rid),
       messagesRef := Some (MessagesPath rid),
       participantsRef := Some (ParticipantsPath rid)\<rparr>"

text \<open>\<^verbatim>\<open>await set(pRef, { id: userIdRef.current, name, joinedAt: Date.now() })\<close>, attempted.\<close>

definition writePresence :: "env \<Rightarrow> string \<Rightarrow> state \<Rightarrow> state" where
  "writePresence e rid s =
     s\<lparr>feedLog := feedLog s @
          [SetAt (ParticipantPath rid (userIdRef s))
             (ParticipantRecord \<lparr>pid = userIdRef s, pname = name s, joinedAt = now e\<rparr>)]\<rparr>"

text \<open>\<^verbatim>\<open>try { onDisconnect(pRef).remove(); } catch {}\<close>\<close>

definition armDisconnect :: "env \<Rightarrow> string \<Rightarrow> state \<Rightarrow> state" where
  "armDisconnect e rid s =
     (if onDisconnectThrows e then s
      else s\<lparr>feedLog := feedLog s @ [OnDisconnectRemove (ParticipantPath rid (userIdRef s))]\<rparr>)"

text \<open>
  \<^verbatim>\<open>try { await remove(ref(db, `rooms/${roomId}/participants/${userIdRef.current}`)); } catch {}\<close>
\<close>

definition removePresence :: "state \<Rightarrow> state" where
  "removePresence s =
     s\<lparr>feedLog := feedLog s @ [RemoveAt (ParticipantPath (roomId s) (userIdRef s))]\<rparr>"

text \<open>
  \<^verbatim>\<open>setInRoom(false); setMessages([]); setParticipants({}); roomRef.current = null; ...;
  setRoomId("")\<close>
\<close>

definition resetRoom :: "state \<Rightarrow> state" where
  "resetRoom s =
     s\<lparr>inRoom := False, messages := [], participants := Map.empty,
       roomRef := None, messagesRef := None, participantsRef := None, roomId := []\<rparr>"

text \<open>The message written by \<^verbatim>\<open>sendMessage\<close>, attempted.\<close>

definition writeMessage :: "env \<Rightarrow> state \<Rightarrow> state" where
  "writeMessage e s =
     s\<lparr>feedLog := feedLog s @
          [SetAt (MessagePath (roomId s) (pushKey e))
             (MessageRecord \<lparr>fromId = userIdRef s, fromName = name s,
                body = trim (localText s), sentAt = now e\<rparr>)]\<rparr>"

section \<open>src/src/App.jsx\<close>

definition joinRoom :: "env \<Rightarrow> string \<Rightarrow> state \<Rightarrow> (error + unit) \<times> state" where
  "joinRoom e rid s =
     (if rid = [] then (Inr (), s\<lparr>alerts := alerts s @ [''Enter room id'']\<rparr>)
      else
        let s1 = writePresence e rid (openRoom rid s) in
        if setFails e (ParticipantPath rid (userIdRef s)) then (Inl WriteRejected, s1)
        else
          let s2 = armDisconnect e rid s1;
              (hp, s3) = subscribe (ParticipantsPath rid) ParticipantsCallback False None s2;
              (hm, s4) = subscribe (MessagesPath rid) MessagesCallback False (Some 200) s3;
              (hr, s5) = subscribe (RoomPath rid) EnsureRoomCallback True None s4
          in (Inr (), s5))"

definition leaveRoom :: "state \<Rightarrow> (error + unit) \<times> state" where
  "leaveRoom s =
     (if \<not> inRoom s \<or> roomId s = [] then (Inr (), s)
      else (Inr (), resetRoom (removePresence s)))"

definition sendMessage :: "env \<Rightarrow> state \<Rightarrow> (error + unit) \<times> state" where
  "sendMessage e s =
     (if \<not> inRoom s \<or> trim (localText s) = [] then (Inr (), s)
      else
        let s1 = writeMessage e s in
        if setFails e (MessagePath (roomId s) (pushKey e)) then (Inl WriteRejected, s1)
        else (Inr (), s1\<lparr>localText := []\<rparr>))"

text \<open>
  \<^verbatim>\<open>createRoom\<close> does not await \<^verbatim>\<open>joinRoom(id)\<close>: a rejection of the join is not its own.
\<close>

definition createRoom :: "env \<Rightarrow> state \<Rightarrow> (error + unit) \<times> state" where
  "createRoom e s =
     (let s1 = s\<lparr>roomId := randomId e\<rparr>;
          s2 = s1\<lparr>feedLog := feedLog s1 @ [SetAt (RoomPath (randomId e)) (RoomRecord (now e))]\<rparr>
      in if setFails e (RoomPath (randomId e)) then (Inl WriteRejected, s2)
         else (Inr (), snd (joinRoom e (randomId e) s2)))"

section \<open>src/unnamed/part_000\<close>

definition pushCleanup :: "cleanup \<Rightarrow> state \<Rightarrow> state" where
  "pushCleanup fn s = s\<lparr>cleanupRef := cleanupRef s @ [fn]\<rparr>"

text \<open>
  One round of the \<^verbatim>\<open>forEach\<close> of \<^verbatim>\<open>runCleanup\<close>:
  \<^verbatim>\<open>try { if (typeof fn === "function") fn(); } catch {}\<close>
\<close>

fun runOne :: "env \<Rightarrow> state \<Rightarrow> cleanup \<Rightarrow> state" where
  "runOne e s NotAFunction = s"
| "runOne e s (Closer h) = tryUnsubscribe e h s"

definition runCleanup :: "env \<Rightarrow> state \<Rightarrow> state" where
  "runCleanup e s = (foldl (runOne e) s (cleanupRef s))\<lparr>cleanupRef := []\<rparr>"

definition leaveRoom_000 :: "env \<Rightarrow> state \<Rightarrow> (error + unit) \<times> state" where
  "leaveRoom_000 e s =
     (if \<not> inRoom s \<or> roomId s = [] then (Inr (), s)
      else (Inr (), resetRoom (runCleanup e (removePresence s))))"

definition joinRoom_000 :: "env \<Rightarrow> string \<Rightarrow> state \<Rightarrow> (error + unit) \<times> state" where
  "joinRoom_000 e rid s =
     (if rid = [] then (Inr (), s\<lparr>alerts := alerts s @ [''Enter room id'']\<rparr>)
      else
        let s0 = (if inRoom s then snd (leaveRoom_000 e s) else s);
            s1 = writePresence e rid (openRoom rid s0) in
        if setFails e (ParticipantPath rid (userIdRef s)) then (Inl WriteRejected, s1)
        else
          let s2 = armDisconnect e rid s1;
              (hp, s3) = subscribe (ParticipantsPath rid) ParticipantsCallback False None s2;
              s4 = pushCleanup (Closer hp) s3;
              (hm, s5) = subscribe (MessagesPath rid) MessagesCallback False (Some 200) s4;
              s6 = pushCleanup (Closer hm) s5;
              (hr, s7) = subscribe (RoomPath rid) EnsureRoomCallback True None s6;
              s8 = pushCleanup (Closer hr) s7
          in (Inr (), s8))"

text \<open>A rejected write is caught and logged to the console: the promise resolves.\<close>

definition sendMessage_000 :: "env \<Rightarrow> state \<Rightarrow> (error + unit) \<times> state" where
  "sendMessage_000 e s =
     (if \<not> inRoom s then (Inr (), s\<lparr>alerts := alerts s @ [''Join a room to send messages.'']\<rparr>)
      else if trim (localText s) = [] then (Inr (), s)
      else
        let s1 = writeMessage e s in
        if setFails e (MessagePath (roomId s) (pushKey e)) then (Inr (), s1)
        else (Inr (), s1\<lparr>localText := []\<rparr>))"

definition createRoom_000 :: "env \<Rightarrow> state \<Rightarrow> (error + unit) \<times> state" where
  "createRoom_000 e s =
     (let s1 = s\<lparr>roomId := randomId e\<rparr>;
          s2 = s1\<lparr>feedLog := feedLog s1 @ [SetAt (RoomPath (randomId e)) (RoomRecord (now e))]\<rparr>
      in if setFails e (RoomPath (randomId e)) then (Inl WriteRejected, s2)
         else (Inr (), snd (joinRoom_000 e (randomId e) s2)))"

section \<open>src/unnamed/part_001\<close>

text \<open>
  The new object assigned to \<^verbatim>\<open>roomRef.current\<close> has no \<^verbatim>\<open>_cleanup\<close> until the end of
  the join, where the closure over the three unsubscribe functions is stored on it.
\<close>

definition joinRoom_001 :: "env \<Rightarrow> string \<Rightarrow> state \<Rightarrow> (error + unit) \<times> state" where
  "joinRoom_001 e rid s =
     (if rid = [] then (Inr (), s\<lparr>alerts := alerts s @ [''Enter room id'']\<rparr>)
      else
        let s1 = writePresence e rid ((openRoom rid s)\<lparr>roomRef_cleanup := None\<rparr>) in
        if setFails e (ParticipantPath rid (userIdRef s)) then (Inl WriteRejected, s1)
        else
          let s2 = armDisconnect e rid s1;
              (hp, s3) = subscribe (ParticipantsPath rid) ParticipantsCallback False None s2;
              (hm, s4) = subscribe (MessagesPath rid) MessagesCallback False (Some 200) s3;
              (hr, s5) = subscribe (RoomPath rid) EnsureRoomCallback True None s4
          in (Inr (), s5\<lparr>roomRef_cleanup := Some (hp, hm, hr)\<rparr>))"

text \<open>
  \<^verbatim>\<open>try { roomRef.current && roomRef.current._cleanup && roomRef.current._cleanup(); } catch {}\<close>
  where the closure tries the three unsubscribe functions one by one.
\<close>

definition runRoomCleanup :: "env \<Rightarrow> state \<Rightarrow> state" where
  "runRoomCleanup e s =
     (case roomRef s of
        None \<Rightarrow> s
      | Some r \<Rightarrow>
          (case roomRef_cleanup s of
             None \<Rightarrow> s
           | Some (hp, hm, hr) \<Rightarrow>
               tryUnsubscribe e hr (tryUnsubscribe e hm (tryUnsubscribe e hp s))))"

definition leaveRoom_001 :: "env \<Rightarrow> state \<Rightarrow> (error + unit) \<times> state" where
  "leaveRoom_001 e s =
     (if \<not> inRoom s \<or> roomId s = [] then (Inr (), s)
      else (Inr (), (resetRoom (runRoomCleanup e (removePresence s)))\<lparr>roomRef_cleanup := None\<rparr>))"

definition createRoom_001 :: "env \<Rightarrow> state \<Rightarrow> (error + unit) \<times> state" where
  "createRoom_001 e s =
     (let s1 = s\<lparr>roomId := randomId e\<rparr>;
          s2 = s1\<lparr>feedLog := feedLog s1 @ [SetAt (RoomPath (randomId e)) (RoomRecord (now e))]\<rparr>
      in if setFails e (RoomPath (randomId e)) then (Inl WriteRejected, s2)
         else (Inr (), snd (joinRoom_001 e (randomId e) s2)))"

section \<open>Notifications of the database\<close>

text \<open>
  A value event on the participants (\<open>None\<close>: \<^verbatim>\<open>snap.val()\<close> is null), a child-added
  event on the messages with the key and value of the snapshot, and the value event
  of the room check with \<^verbatim>\<open>snap.exists()\<close>.
\<close>

datatype notification =
    ParticipantsSnapshot "(string \<rightharpoonup> participant) option"
  | ChildAdded string "payload option"
  | RoomSnapshot bool

text \<open>
  The room check: a listener registered with \<^verbatim>\<open>onlyOnce\<close> is removed when it fires;
  \<^verbatim>\<open>if (!snap.exists()) set(roomRef.current, { createdAt: Date.now() })\<close> reads the ref
  when the event arrives, and with a null ref the call throws inside the callback
  and writes nothing.
\<close>

definition ensureRoom :: "env \<Rightarrow> bool \<Rightarrow> state \<Rightarrow> state" where
  "ensureRoom e ex s =
     (if ex then s
      else (case roomRef s of
              None \<Rightarrow> s
            | Some r \<Rightarrow> s\<lparr>feedLog := feedLog s @ [SetAt r (RoomRecord (now e))]\<rparr>))"

fun fire :: "env \<Rightarrow> listener \<Rightarrow> notification \<Rightarrow> state \<Rightarrow> state" where
  "fire e l (ParticipantsSnapshot v) s =
     (if callback l = ParticipantsCallback then s\<lparr>participants := participantsValue v\<rparr> else s)"
| "fire e l (ChildAdded key val) s =
     (if callback l = MessagesCallback then s\<lparr>messages := messageAdded key val (messages s)\<rparr>
      else s)"
| "fire e l (RoomSnapshot ex) s =
     (if callback l = EnsureRoomCallback
      then ensureRoom e ex (if onlyOnce l then unsubscribe (handle l) s else s)
      else s)"

text \<open>An event reaches the component only through a listener that is still registered.\<close>

definition deliver :: "env \<Rightarrow> nat \<Rightarrow> notification \<Rightarrow> state \<Rightarrow> state" where
  "deliver e h n s =
     (case find (\<lambda>l. handle l = h) (listeners s) of
        None \<Rightarrow> s
      | Some l \<Rightarrow> fire e l n s)"

section \<open>The component as a machine\<close>

datatype variant = App | Part000 | Part001

text \<open>
  The intents of the user interface (the four functions and the three text inputs)
  and the notifications of the database. A rejected promise of an intent is dropped
  by the interface, so a step keeps the state only. The interface disables some
  buttons (Join and Create inside a room, Leave outside); the machine does not, so it
  has every run of the component and more. \<^verbatim>\<open>sendMessage\<close> of part_001 is that of
  \<^verbatim>\<open>src/src/App.jsx\<close>, line by line.
\<close>

datatype intent =
    CreateRoom
  | JoinRoom string
  | LeaveRoom
  | SendMessage
  | SetRoomId string
  | SetName string
  | SetLocalText string
  | Deliver nat notification

fun step :: "variant \<Rightarrow> state \<Rightarrow> env \<times> intent \<Rightarrow> state" where
  "step App s (e, CreateRoom) = snd (createRoom e s)"
| "step Part000 s (e, CreateRoom) = snd (createRoom_000 e s)"
| "step Part001 s (e, CreateRoom) = snd (createRoom_001 e s)"
| "step App s (e, JoinRoom rid) = snd (joinRoom e rid s)"
| "step Part000 s (e, JoinRoom rid) = snd (joinRoom_000 e rid s)"
| "step Part001 s (e, JoinRoom rid) = snd (joinRoom_001 e rid s)"
| "step App s (e, LeaveRoom) = snd (leaveRoom s)"
| "step Part000 s (e, LeaveRoom) = snd (leaveRoom_000 e s)"
| "step Part001 s (e, LeaveRoom) = snd (leaveRoom_001 e s)"
| "step App s (e, SendMessage) = snd (sendMessage e s)"
| "step Part000 s (e, SendMessage) = snd (sendMessage_000 e s)"
| "step Part001 s (e, SendMessage) = snd (sendMessage e s)"
| "step v s (e, SetRoomId t) = s\<lparr>roomId := t\<rparr>"
| "step v s (e, SetName t) = s\<lparr>name := t\<rparr>"
| "step v s (e, SetLocalText t) = s\<lparr>localText := t\<rparr>"
| "step v s (e, Deliver h n) = deliver e h n s"

definition run :: "variant \<Rightarrow> state \<Rightarrow> (env \<times> intent) list \<Rightarrow> state" where
  "run v s evs = foldl (step v) s evs"

text \<open>Applying a sequence of child-added notifications to a local message list.\<close>

definition applyAdded :: "message list \<Rightarrow> (string \<times> payload option) list \<Rightarrow> message list" where
  "applyAdded prev ns = foldl (\<lambda>ms (key, val). messageAdded key val ms) prev ns"


text \<open>The same notifications as events of the machine, through the listener \<open>h\<close>.\<close>

definition deliverAll ::
  "env \<Rightarrow> nat \<Rightarrow> (string \<times> payload option) list \<Rightarrow> (env \<times> intent) list" where
  "deliverAll e h ns = map (\<lambda>(key, val). (e, Deliver h (ChildAdded key val))) ns"

text \<open>
  The registry of part_000 covers a state when every listener the database holds for
  the component has its closer in \<^verbatim>\<open>cleanupRef.current\<close>; a database is quiet when
  no unsubscribe function throws.
\<close>

definition registered :: "state \<Rightarrow> bool" where
  "registered s = list_all (\<lambda>l. Closer (handle l) \<in> set (cleanupRef s)) (listeners s)"

definition quiet :: "env \<Rightarrow> bool" where
  "quiet e = (\<forall>h. \<not> unsubThrows e h)"

section \<open>Concrete inputs\<close>

text \<open>
  A database that accepts everything, one that rejects every write, and one whose
  unsubscribe function of handle 0 throws; a message value; a participants value.
\<close>

definition env_ok :: env where
  "env_ok =
     \<lparr>now = 1000, setFails = (\<lambda>p. False), onDisconnectThrows = False,
      unsubThrows = (\<lambda>h. False), pushKey = ''k1'', randomId = ''abc1234''\<rparr>"

definition env_reject :: env where
  "env_reject =
     \<lparr>now = 1000, setFails = (\<lambda>p. True), onDisconnectThrows = False,
      unsubThrows = (\<lambda>h. False), pushKey = ''k1'', randomId = ''abc1234''\<rparr>"

definition env_throw :: env where
  "env_throw =
     \<lparr>now = 1000, setFails = (\<lambda>p. False), onDisconnectThrows = False,
      unsubThrows = (\<lambda>h. h = 0), pushKey = ''k1'', randomId = ''abc1234''\<rparr>"

definition hi :: payload where
  "hi = \<lparr>fromId = ''u2'', fromName = ''bob'', body = ''hi'', sentAt = 990\<rparr>"

definition ann :: participant where
  "ann = \<lparr>pid = ''u1'', pname = ''ann'', joinedAt = 1000\<rparr>"

definition bob :: participant where
  "bob = \<lparr>pid = ''u2'', pname = ''bob'', joinedAt = 900\<rparr>"

text \<open>The keys \<open>a\<close>, \<open>aa\<close>, \<open>aaa\<close>, ...: pairwise distinct and increasing.\<close>

definition keyOf :: "nat \<Rightarrow> string" where
  "keyOf n = replicate (Suc n) (CHR ''a'')"

definition added :: "nat \<Rightarrow> (string \<times> payload option) list" where
  "added n = map (\<lambda>i. (keyOf i, Some hi)) [0..<n]"


section \<open>Properties\<close>

subsection \<open>The message callback\<close>

lemma list_ex_msg_id: "list_ex (\<lambda>m. msg_id m = k) prev \<longleftrightarrow> k \<in> set (map msg_id prev)"
  by (auto simp: list_ex_iff)

lemma appendMessage_ids:
  "map msg_id (appendMessage msg prev) =
     (if msg_id msg \<in> set (map msg_id prev) then map msg_id prev else map msg_id prev @ [msg_id msg])"
  by (simp add: appendMessage_def list_ex_msg_id)

lemma messageAdded_None: "messageAdded key None prev = prev"
  by (simp add: messageAdded_def)

lemma messageAdded_present:
  "key \<in> set (map msg_id prev) \<Longrightarrow> messageAdded key val prev = prev"
  by (cases val) (simp_all add: messageAdded_def appendMessage_def list_ex_msg_id)

lemma messageAdded_fresh:
  "key \<notin> set (map msg_id prev) \<Longrightarrow>
   messageAdded key (Some v) prev =
     prev @ [\<lparr>fromId = fromId v, fromName = fromName v, body = body v, sentAt = sentAt v,
              msg_id = key\<rparr>]"
  by (simp add: messageAdded_def appendMessage_def list_ex_msg_id)

lemma messageAdded_ids:
  "map msg_id (messageAdded key val prev) =
     (if val = None \<or> key \<in> set (map msg_id prev) then map msg_id prev
      else map msg_id prev @ [key])"
  by (cases val) (simp_all add: messageAdded_def appendMessage_ids)

lemma distinct_messageAdded:
  "distinct (map msg_id prev) \<Longrightarrow> distinct (map msg_id (messageAdded key val prev))"
  by (simp add: messageAdded_ids)

lemma messageAdded_twice:
  "messageAdded key val (messageAdded key val prev) = messageAdded key val prev"
proof (cases "val = None \<or> key \<in> set (map msg_id prev)")
  case True
  then show ?thesis by (auto simp: messageAdded_None messageAdded_present)
next
  case False
  then obtain v where v: "val = Some v" and fresh: "key \<notin> set (map msg_id prev)" by auto
  have "key \<in> set (map msg_id (messageAdded key val prev))"
    using fresh v by (simp add: messageAdded_ids)
  then show ?thesis by (rule messageAdded_present)
qed

lemma length_filter_key:
  "distinct (map msg_id ms) \<Longrightarrow>
   length (filter (\<lambda>m. msg_id m = key) ms) = (if key \<in> set (map msg_id ms) then 1 else 0)"
  by (induction ms) auto

lemma count_messageAdded:
  assumes "distinct (map msg_id prev)"
  shows "length (filter (\<lambda>m. msg_id m = key) (messageAdded key (Some v) prev)) = 1"
proof -
  let ?r = "messageAdded key (Some v) prev"
  have d: "distinct (map msg_id ?r)" using assms by (rule distinct_messageAdded)
  have m: "key \<in> set (map msg_id ?r)" by (simp add: messageAdded_ids)
  show ?thesis using length_filter_key [OF d, of key] m by simp
qed

subsection \<open>Sequences of notifications\<close>

lemma applyAdded_Nil: "applyAdded prev [] = prev"
  by (simp add: applyAdded_def)

lemma applyAdded_Cons: "applyAdded prev ((key, val) # ns) = applyAdded (messageAdded key val prev) ns"
  by (simp add: applyAdded_def)

lemma sorted_drop_middle: "sorted (xs @ y # ys) \<Longrightarrow> sorted (xs @ (ys :: 'a :: linorder list))"
  by (auto simp: sorted_append)

lemma sorted_applyAdded:
  "sorted (map msg_id prev @ map fst ns) \<Longrightarrow> sorted (map msg_id (applyAdded prev ns))"
proof (induction ns arbitrary: prev)
  case Nil
  then show ?case by (simp add: applyAdded_Nil)
next
  case (Cons n ns)
  obtain key val where n: "n = (key, val)" by (cases n)
  from Cons.prems n have s: "sorted (map msg_id prev @ key # map fst ns)" by simp
  have "sorted (map msg_id (messageAdded key val prev) @ map fst ns)"
    using s sorted_drop_middle [OF s] by (simp add: messageAdded_ids)
  then show ?case using n by (simp add: applyAdded_Cons Cons.IH)
qed

lemma distinct_applyAdded:
  "distinct (map msg_id prev) \<Longrightarrow> distinct (map msg_id (applyAdded prev ns))"
  by (induction ns arbitrary: prev) (auto simp: applyAdded_Nil applyAdded_Cons distinct_messageAdded)

lemma sorted_take_keys:
  "sorted (map msg_id prev @ map fst ns) \<Longrightarrow> sorted (map msg_id prev @ map fst (take n ns))"
proof -
  assume a: "sorted (map msg_id prev @ map fst ns)"
  have "map msg_id prev @ map fst ns = (map msg_id prev @ map fst (take n ns)) @ map fst (drop n ns)"
    by (simp flip: map_append)
  with a show ?thesis by (metis sorted_append)
qed

lemma take_applyAdded: "take (length prev) (applyAdded prev ns) = prev"
proof (induction ns arbitrary: prev)
  case Nil
  then show ?case by (simp add: applyAdded_Nil)
next
  case (Cons n ns)
  obtain key val where n: "n = (key, val)" by (cases n)
  have "messageAdded key val prev = prev \<or> (\<exists>m. messageAdded key val prev = prev @ [m])"
    by (cases val) (auto simp: messageAdded_def appendMessage_def)
  then show ?case
  proof
    assume "messageAdded key val prev = prev"
    then show ?thesis using Cons.IH [of prev] n by (simp add: applyAdded_Cons)
  next
    assume "\<exists>m. messageAdded key val prev = prev @ [m]"
    then obtain m where m: "messageAdded key val prev = prev @ [m]" ..
    have "take (length prev) (applyAdded (prev @ [m]) ns) =
          take (length prev) (take (length (prev @ [m])) (applyAdded (prev @ [m]) ns))"
      by (simp add: min_def)
    also have "\<dots> = take (length prev) (prev @ [m])"
      by (simp only: Cons.IH)
    finally show ?thesis using n m by (simp add: applyAdded_Cons)
  qed
qed

lemma length_applyAdded_le: "length (applyAdded prev ns) \<le> length prev + length ns"
proof (induction ns arbitrary: prev)
  case Nil
  then show ?case by (simp add: applyAdded_Nil)
next
  case (Cons n ns)
  obtain key val where n: "n = (key, val)" by (cases n)
  have "length (messageAdded key val prev) \<le> Suc (length prev)"
    by (cases val) (auto simp: messageAdded_def appendMessage_def)
  then show ?case using Cons.IH [of "messageAdded key val prev"] n
    by (simp add: applyAdded_Cons)
qed

lemma length_applyAdded_fresh:
  assumes "distinct (map fst ns)" "set (map fst ns) \<inter> set (map msg_id prev) = {}"
    "None \<notin> set (map snd ns)"
  shows "length (applyAdded prev ns) = length prev + length ns"
  using assms
proof (induction ns arbitrary: prev)
  case Nil
  then show ?case by (simp add: applyAdded_Nil)
next
  case (Cons n ns)
  obtain key val where n: "n = (key, val)" by (cases n)
  from Cons.prems n obtain v where v: "val = Some v" by (cases val) auto
  from Cons.prems n have fresh: "key \<notin> set (map msg_id prev)" by auto
  have ids: "map msg_id (messageAdded key val prev) = map msg_id prev @ [key]"
    using fresh v by (simp add: messageAdded_ids)
  have len: "length (messageAdded key val prev) = Suc (length prev)"
    using fresh v by (simp add: messageAdded_fresh)
  have "length (applyAdded (messageAdded key val prev) ns) =
        length (messageAdded key val prev) + length ns"
  proof (rule Cons.IH)
    show "distinct (map fst ns)" using Cons.prems by simp
    show "set (map fst ns) \<inter> set (map msg_id (messageAdded key val prev)) = {}"
      using Cons.prems n by (auto simp: ids)
    show "None \<notin> set (map snd ns)" using Cons.prems by auto
  qed
  then show ?case using n len by (simp add: applyAdded_Cons)
qed

subsection \<open>The message list through the operations\<close>

lemmas piece_defs =
  openRoom_def writePresence_def armDisconnect_def removePresence_def resetRoom_def
  writeMessage_def subscribe_def unsubscribe_def tryUnsubscribe_def pushCleanup_def
  ensureRoom_def

lemmas machine_defs =
  joinRoom_def leaveRoom_def sendMessage_def createRoom_def
  joinRoom_000_def leaveRoom_000_def sendMessage_000_def createRoom_000_def runCleanup_def
  joinRoom_001_def leaveRoom_001_def createRoom_001_def runRoomCleanup_def
  deliver_def run_def initial_def

lemma messages_runOne: "messages (runOne e s c) = messages s"
  by (cases c) (simp_all add: piece_defs)

lemma messages_foldl_runOne: "messages (foldl (runOne e) s cs) = messages s"
  by (induction cs arbitrary: s) (simp_all add: messages_runOne)

lemma messages_runCleanup: "messages (runCleanup e s) = messages s"
  by (simp add: runCleanup_def messages_foldl_runOne)

lemma messages_runRoomCleanup: "messages (runRoomCleanup e s) = messages s"
  by (simp add: runRoomCleanup_def piece_defs split: option.splits prod.splits)

lemma messages_joinRoom: "messages (snd (joinRoom e rid s)) = messages s"
  by (simp add: joinRoom_def piece_defs Let_def)

lemma messages_leaveRoom: "messages (snd (leaveRoom s)) = (if inRoom s \<and> roomId s \<noteq> [] then [] else messages s)"
  by (simp add: leaveRoom_def piece_defs)

lemma messages_leaveRoom_000:
  "messages (snd (leaveRoom_000 e s)) = (if inRoom s \<and> roomId s \<noteq> [] then [] else messages s)"
  by (simp add: leaveRoom_000_def resetRoom_def)

lemma messages_leaveRoom_001:
  "messages (snd (leaveRoom_001 e s)) = (if inRoom s \<and> roomId s \<noteq> [] then [] else messages s)"
  by (simp add: leaveRoom_001_def resetRoom_def)

lemma messages_joinRoom_000:
  "messages (snd (joinRoom_000 e rid s)) =
     (if rid \<noteq> [] \<and> inRoom s \<and> roomId s \<noteq> [] then [] else messages s)"
  by (simp add: joinRoom_000_def piece_defs Let_def messages_leaveRoom_000)

lemma messages_joinRoom_001: "messages (snd (joinRoom_001 e rid s)) = messages s"
  by (simp add: joinRoom_001_def piece_defs Let_def)

lemma messages_sendMessage: "messages (snd (sendMessage e s)) = messages s"
  by (simp add: sendMessage_def piece_defs Let_def)

lemma messages_sendMessage_000: "messages (snd (sendMessage_000 e s)) = messages s"
  by (simp add: sendMessage_000_def piece_defs Let_def)

lemma messages_createRoom: "messages (snd (createRoom e s)) = messages s"
  by (simp add: createRoom_def Let_def messages_joinRoom)

lemma messages_createRoom_000:
  "messages (snd (createRoom_000 e s)) =
     (if randomId e \<noteq> [] \<and> \<not> setFails e (RoomPath (randomId e)) \<and> inRoom s then [] else messages s)"
  by (simp add: createRoom_000_def Let_def messages_joinRoom_000)

lemma messages_createRoom_001: "messages (snd (createRoom_001 e s)) = messages s"
  by (simp add: createRoom_001_def Let_def messages_joinRoom_001)

lemma messages_fire:
  "messages (fire e l n s) =
     (case n of ChildAdded key val \<Rightarrow>
                  if callback l = MessagesCallback then messageAdded key val (messages s)
                  else messages s
              | _ \<Rightarrow> messages s)"
  by (cases n) (simp_all add: piece_defs split: option.splits)

lemma messages_deliver:
  "messages (deliver e h n s) = messages s \<or>
   (\<exists>key val. messages (deliver e h n s) = messageAdded key val (messages s))"
  by (cases n) (auto simp: deliver_def messages_fire simp del: fire.simps split: option.splits)

lemma distinct_step:
  assumes "distinct (map msg_id (messages s))"
  shows "distinct (map msg_id (messages (step v s ev)))"
proof -
  obtain e i where ev: "ev = (e, i)" by (cases ev)
  show ?thesis
  proof (cases i)
    case (Deliver h n)
    then show ?thesis
      using assms messages_deliver [of e h n s] ev
      by (auto simp: distinct_messageAdded)
  qed (use assms ev in \<open>cases v; simp add: messages_joinRoom messages_joinRoom_000
         messages_joinRoom_001 messages_leaveRoom messages_leaveRoom_000 messages_leaveRoom_001
         messages_sendMessage messages_sendMessage_000 messages_createRoom
         messages_createRoom_000 messages_createRoom_001\<close>)+
qed

lemma distinct_run:
  "distinct (map msg_id (messages s)) \<Longrightarrow> distinct (map msg_id (messages (run v s evs)))"
  unfolding run_def by (induction evs arbitrary: s) (simp_all add: distinct_step)

lemma messages_initial: "messages (initial uid nm) = []"
  by (simp add: initial_def)

subsection \<open>Runs and listeners\<close>

lemma run_Nil: "run v s [] = s"
  by (simp add: run_def)

lemma run_Cons: "run v s (ev # evs) = run v (step v s ev) evs"
  by (simp add: run_def)

lemma step_deliver_added:
  assumes "find (\<lambda>l. handle l = h) (listeners s) = Some l" "callback l = MessagesCallback"
  shows "step v s (e, Deliver h (ChildAdded key val)) = s\<lparr>messages := messageAdded key val (messages s)\<rparr>"
  using assms by (simp add: deliver_def)

lemma run_deliverAll:
  assumes "find (\<lambda>l. handle l = h) (listeners s) = Some l" "callback l = MessagesCallback"
  shows "run v s (deliverAll e h ns) = s\<lparr>messages := applyAdded (messages s) ns\<rparr>"
  using assms
proof (induction ns arbitrary: s)
  case Nil
  then show ?case by (simp add: deliverAll_def run_Nil applyAdded_Nil)
next
  case (Cons n ns)
  obtain key val where n: "n = (key, val)" by (cases n)
  let ?s' = "s\<lparr>messages := messageAdded key val (messages s)\<rparr>"
  have st: "step v s (e, Deliver h (ChildAdded key val)) = ?s'"
    using Cons.prems by (rule step_deliver_added)
  have "run v ?s' (deliverAll e h ns) = ?s'\<lparr>messages := applyAdded (messages ?s') ns\<rparr>"
    using Cons.prems by (intro Cons.IH) simp_all
  then show ?case using n st
    by (simp add: deliverAll_def run_Cons applyAdded_Cons del: step.simps)
qed

lemma deliver_participants:
  assumes "find (\<lambda>l. handle l = h) (listeners s) = Some l" "callback l = ParticipantsCallback"
  shows "deliver e h (ParticipantsSnapshot v) s = s\<lparr>participants := participantsValue v\<rparr>"
  using assms by (simp add: deliver_def)

lemma listeners_joinRoom:
  assumes "rid \<noteq> []" "\<not> setFails e (ParticipantPath rid (userIdRef s))"
  shows "listeners (snd (joinRoom e rid s)) =
           listeners s @
           [\<lparr>handle = nextHandle s, target = ParticipantsPath rid,
              callback = ParticipantsCallback, onlyOnce = False, limitToLast = None\<rparr>,
            \<lparr>handle = Suc (nextHandle s), target = MessagesPath rid,
              callback = MessagesCallback, onlyOnce = False, limitToLast = Some 200\<rparr>,
            \<lparr>handle = Suc (Suc (nextHandle s)), target = RoomPath rid,
              callback = EnsureRoomCallback, onlyOnce = True, limitToLast = None\<rparr>]"
  using assms by (simp add: joinRoom_def piece_defs Let_def)

lemma inRoom_resetRoom: "inRoom (resetRoom s) = False"
  by (simp add: resetRoom_def)

lemma listeners_runOne: "set (listeners (runOne e s c)) \<subseteq> set (listeners s)"
  by (cases c) (auto simp: piece_defs)

lemma listeners_foldl_runOne: "set (listeners (foldl (runOne e) s cs)) \<subseteq> set (listeners s)"
proof (induction cs arbitrary: s)
  case Nil
  then show ?case by simp
next
  case (Cons c cs)
  have "set (listeners (foldl (runOne e) (runOne e s c) cs)) \<subseteq> set (listeners (runOne e s c))"
    by (rule Cons.IH)
  also have "\<dots> \<subseteq> set (listeners s)" by (rule listeners_runOne)
  finally show ?case by simp
qed

lemma listeners_leaveRoom_000: "set (listeners (snd (leaveRoom_000 e s))) \<subseteq> set (listeners s)"
  using listeners_foldl_runOne [of e "removePresence s" "cleanupRef s"]
  by (simp add: leaveRoom_000_def resetRoom_def runCleanup_def removePresence_def)

subsection \<open>The concrete inputs\<close>

lemma joined_listeners:
  "listeners (snd (joinRoom env_ok ''r1'' (initial ''u1'' ''ann''))) =
     [\<lparr>handle = 0, target = ParticipantsPath ''r1'',
        callback = ParticipantsCallback, onlyOnce = False, limitToLast = None\<rparr>,
      \<lparr>handle = Suc 0, target = MessagesPath ''r1'',
        callback = MessagesCallback, onlyOnce = False, limitToLast = Some 200\<rparr>,
      \<lparr>handle = Suc (Suc 0), target = RoomPath ''r1'',
        callback = EnsureRoomCallback, onlyOnce = True, limitToLast = None\<rparr>]"
  using listeners_joinRoom [of "''r1''" env_ok "initial ''u1'' ''ann''"]
  by (simp add: env_ok_def initial_def)

lemma joined_listener0:
  "find (\<lambda>l. handle l = 0) (listeners (snd (joinRoom env_ok ''r1'' (initial ''u1'' ''ann'')))) =
     Some \<lparr>handle = 0, target = ParticipantsPath ''r1'',
              callback = ParticipantsCallback, onlyOnce = False, limitToLast = None\<rparr>"
  by (simp add: joined_listeners)

lemma keyOf_inj: "keyOf i = keyOf j \<longleftrightarrow> i = j"
  by (simp add: keyOf_def)

lemma fst_added: "map fst (added n) = map keyOf [0..<n]"
  by (simp add: added_def comp_def)

lemma distinct_added: "distinct (map fst (added n))"
  by (simp add: fst_added distinct_map inj_on_def keyOf_inj)

lemma snd_added: "None \<notin> set (map snd (added n))"
  by (auto simp: added_def)

lemma length_added: "length (added n) = n"
  by (simp add: added_def)

lemma ids_added3: "map msg_id (applyAdded [] (take 2 (added 3))) = [''a'', ''aa'']"
  by (simp add: added_def keyOf_def eval_nat_numeral applyAdded_def messageAdded_def
      appendMessage_def hi_def)

lemma sorted_added3: "sorted (map fst (added 3))"
  by (simp add: added_def keyOf_def eval_nat_numeral)

subsection \<open>White space\<close>

lemma trim_empty_iff: "trim t = [] \<longleftrightarrow> (\<forall>c\<in>set t. isWhiteSpace c)"
proof
  assume "trim t = []"
  then have "dropWhile isWhiteSpace (rev (dropWhile isWhiteSpace t)) = []"
    by (simp add: trim_def)
  then have a: "\<forall>c\<in>set (dropWhile isWhiteSpace t). isWhiteSpace c"
    by (simp add: dropWhile_eq_Nil_conv)
  show "\<forall>c\<in>set t. isWhiteSpace c"
  proof (cases "dropWhile isWhiteSpace t")
    case Nil
    then show ?thesis by (simp add: dropWhile_eq_Nil_conv)
  next
    case (Cons x xs)
    then have "\<not> isWhiteSpace x" using hd_dropWhile [of isWhiteSpace t] by auto
    with a Cons show ?thesis by simp
  qed
next
  assume "\<forall>c\<in>set t. isWhiteSpace c"
  then have d: "dropWhile isWhiteSpace t = []" by (simp add: dropWhile_eq_Nil_conv)
  show "trim t = []" by (simp only: trim_def d rev.simps dropWhile.simps)
qed

lemma trim_example: "trim ''  hi there  '' = ''hi there''"
  by (simp add: trim_def isWhiteSpace_def)

subsection \<open>Retention of messages\<close>

text \<open>
  C1, as the code has it. The message callback never evicts: the list before a
  sequence of notifications is the beginning of the list after it, the list grows by
  at most one entry per notification, and by exactly one for each notification with a
  value and an id that is new and not repeated, whatever the length. The bound of 200
  is the \<^verbatim>\<open>limitToLast(200)\<close> of the query the listener of \<^verbatim>\<open>joinRoom\<close> is registered on.
\<close>

theorem messages_not_evicted:
  "take (length prev) (applyAdded prev ns) = prev \<and>
   length (applyAdded prev ns) \<le> length prev + length ns \<and>
   (distinct (map fst ns) \<and> set (map fst ns) \<inter> set (map msg_id prev) = {} \<and>
    None \<notin> set (map snd ns) \<longrightarrow>
      length (applyAdded prev ns) = length prev + length ns) \<and>
   (rid \<noteq> [] \<and> \<not> setFails e (ParticipantPath rid (userIdRef s)) \<longrightarrow>
      map limitToLast
        (filter (\<lambda>l. callback l = MessagesCallback)
           (drop (length (listeners s)) (listeners (snd (joinRoom e rid s))))) = [Some 200])"
  using take_applyAdded [of prev ns] length_applyAdded_le [of prev ns]
    length_applyAdded_fresh [of ns prev] listeners_joinRoom [of rid e s]
  by simp

theorem messages_not_evicted_witness:
  "take 0 (applyAdded [] (added 3)) = [] \<and>
   length (applyAdded [] (added 3)) = 3 \<and>
   map limitToLast
     (filter (\<lambda>l. callback l = MessagesCallback)
        (drop 0 (listeners (snd (joinRoom env_ok ''r1'' (initial ''u1'' ''ann'')))))) = [Some 200]"
  using messages_not_evicted [where prev = "[]" and ns = "added 3" and rid = "''r1''"
      and e = env_ok and s = "initial ''u1'' ''ann''"]
    distinct_added [of 3] snd_added [of 3]
  by (simp add: length_added env_ok_def initial_def)

text \<open>
  201 notifications with distinct keys, delivered through the message listener of a
  joined room, leave 201 local messages.
\<close>

theorem messages_cap_counterexample:
  "length (applyAdded [] (added 201)) = 201 \<and>
   length (messages (run App (initial ''u1'' ''ann'')
      ((env_ok, JoinRoom ''r1'') # deliverAll env_ok 1 (added 201)))) = 201 \<and>
   \<not> length (messages (run App (initial ''u1'' ''ann'')
      ((env_ok, JoinRoom ''r1'') # deliverAll env_ok 1 (added 201)))) \<le> 200"
proof -
  let ?s = "snd (joinRoom env_ok ''r1'' (initial ''u1'' ''ann''))"
  have len: "length (applyAdded [] (added 201)) = 201"
    using length_applyAdded_fresh [of "added 201" "[]"] distinct_added [of 201] snd_added [of 201]
    by (simp add: length_added)
  have ms: "messages ?s = []"
    by (simp add: messages_joinRoom messages_initial)
  have "run App ?s (deliverAll env_ok 1 (added 201)) =
        ?s\<lparr>messages := applyAdded (messages ?s) (added 201)\<rparr>"
    by (rule run_deliverAll [where l = "\<lparr>handle = Suc 0, target = MessagesPath ''r1'',
              callback = MessagesCallback, onlyOnce = False, limitToLast = Some 200\<rparr>"])
       (simp_all add: joined_listeners)
  then have "messages (run App (initial ''u1'' ''ann'')
      ((env_ok, JoinRoom ''r1'') # deliverAll env_ok 1 (added 201))) = applyAdded [] (added 201)"
    by (simp add: run_Cons ms)
  then show ?thesis using len by simp
qed

subsection \<open>A join whose presence write is rejected\<close>

text \<open>
  C2, as the code has it. When the presence write of a join is rejected, the promise of
  \<^verbatim>\<open>joinRoom\<close> is rejected with that error and no listener is registered; the state
  written before the write stays: \<^verbatim>\<open>inRoom\<close> is true and \<^verbatim>\<open>roomId\<close> is the room asked
  for. The three variants agree.
\<close>

theorem join_write_rejected:
  assumes "rid \<noteq> []" "setFails e (ParticipantPath rid (userIdRef s))"
  shows "fst (joinRoom e rid s) = Inl WriteRejected \<and>
         inRoom (snd (joinRoom e rid s)) \<and> roomId (snd (joinRoom e rid s)) = rid \<and>
         listeners (snd (joinRoom e rid s)) = listeners s \<and>
         fst (joinRoom_000 e rid s) = Inl WriteRejected \<and>
         inRoom (snd (joinRoom_000 e rid s)) \<and> roomId (snd (joinRoom_000 e rid s)) = rid \<and>
         set (listeners (snd (joinRoom_000 e rid s))) \<subseteq> set (listeners s) \<and>
         fst (joinRoom_001 e rid s) = Inl WriteRejected \<and>
         inRoom (snd (joinRoom_001 e rid s)) \<and> roomId (snd (joinRoom_001 e rid s)) = rid \<and>
         listeners (snd (joinRoom_001 e rid s)) = listeners s"
  using assms listeners_leaveRoom_000 [of e s]
  by (simp add: joinRoom_def joinRoom_000_def joinRoom_001_def openRoom_def writePresence_def
      Let_def)

theorem join_write_rejected_witness:
  "fst (joinRoom env_reject ''r1'' (initial ''u1'' ''ann'')) = Inl WriteRejected \<and>
   roomId (snd (joinRoom env_reject ''r1'' (initial ''u1'' ''ann''))) = ''r1'' \<and>
   roomId (snd (joinRoom_000 env_reject ''r1'' (initial ''u1'' ''ann''))) = ''r1'' \<and>
   roomId (snd (joinRoom_001 env_reject ''r1'' (initial ''u1'' ''ann''))) = ''r1'' \<and>
   listeners (snd (joinRoom env_reject ''r1'' (initial ''u1'' ''ann''))) = []"
  using join_write_rejected [of "''r1''" env_reject "initial ''u1'' ''ann''"]
  by (simp add: env_reject_def initial_def)

text \<open>
  After a rejected presence write from the initial state the session is in the room.
\<close>

theorem join_write_rejected_counterexample:
  "fst (joinRoom env_reject ''r1'' (initial ''u1'' ''ann'')) = Inl WriteRejected \<and>
   inRoom (snd (joinRoom env_reject ''r1'' (initial ''u1'' ''ann''))) \<and>
   inRoom (snd (joinRoom_000 env_reject ''r1'' (initial ''u1'' ''ann''))) \<and>
   inRoom (snd (joinRoom_001 env_reject ''r1'' (initial ''u1'' ''ann'')))"
  by (simp add: joinRoom_def joinRoom_000_def joinRoom_001_def openRoom_def writePresence_def
      Let_def env_reject_def initial_def)

subsection \<open>The cleanup registry of part_000\<close>

lemma runCleanup_empty: "cleanupRef s = [] \<Longrightarrow> runCleanup e s = s"
  by (simp add: runCleanup_def)

lemma cleanupRef_runCleanup: "cleanupRef (runCleanup e s) = []"
  by (simp add: runCleanup_def)

lemma runCleanup_idempotent: "runCleanup e' (runCleanup e s) = runCleanup e s"
  by (rule runCleanup_empty) (rule cleanupRef_runCleanup)

lemma listeners_foldl_runOne_eq:
  "listeners (foldl (runOne e) s cs) =
     filter (\<lambda>l. Closer (handle l) \<notin> set cs \<or> unsubThrows e (handle l)) (listeners s)"
proof (induction cs arbitrary: s)
  case Nil
  then show ?case by simp
next
  case (Cons c cs)
  show ?case
  proof (cases c)
    case NotAFunction
    then show ?thesis by (simp add: Cons.IH)
  next
    case (Closer h)
    then show ?thesis
      by (auto simp: Cons.IH piece_defs intro!: filter_cong)
  qed
qed

lemma listeners_runCleanup:
  "listeners (runCleanup e s) =
     filter (\<lambda>l. Closer (handle l) \<notin> set (cleanupRef s) \<or> unsubThrows e (handle l)) (listeners s)"
  by (simp add: runCleanup_def listeners_foldl_runOne_eq)

text \<open>
  A closer whose unsubscribe function does not throw closes its listener, whatever the
  other entries of the registry do.
\<close>

lemma runCleanup_closes:
  assumes "Closer h \<in> set (cleanupRef s)" "\<not> unsubThrows e h"
  shows "h \<notin> handle ` set (listeners (runCleanup e s))"
  using assms by (auto simp: listeners_runCleanup)

lemma runCleanup_closes_all:
  assumes "registered s" "quiet e"
  shows "listeners (runCleanup e s) = []"
  using assms
  by (auto simp: listeners_runCleanup registered_def quiet_def list_all_iff filter_empty_conv)

text \<open>
  In part_000 a leave that is carried out closes every listener the registry covers.
\<close>

lemma leaveRoom_000_closes_all:
  assumes "registered s" "quiet e" "inRoom s" "roomId s \<noteq> []"
  shows "listeners (snd (leaveRoom_000 e s)) = [] \<and> cleanupRef (snd (leaveRoom_000 e s)) = [] \<and>
         \<not> inRoom (snd (leaveRoom_000 e s))"
proof -
  have "registered (removePresence s)"
    using assms(1) by (simp add: registered_def removePresence_def)
  then have "listeners (runCleanup e (removePresence s)) = []"
    using assms(2) by (rule runCleanup_closes_all)
  then show ?thesis
    using assms(3,4) by (simp add: leaveRoom_000_def resetRoom_def cleanupRef_runCleanup)
qed

lemma registered_leaveRoom_000:
  assumes "registered s" "quiet e"
  shows "registered (snd (leaveRoom_000 e s))"
proof (cases "inRoom s \<and> roomId s \<noteq> []")
  case True
  then show ?thesis
    using leaveRoom_000_closes_all [OF assms] by (simp add: registered_def)
next
  case False
  then show ?thesis using assms(1) by (auto simp: leaveRoom_000_def)
qed

lemma registered_subscribe:
  assumes "registered s"
  shows "registered (pushCleanup (Closer (fst (subscribe p cb once lim s)))
                       (snd (subscribe p cb once lim s)))"
  using assms by (auto simp: registered_def subscribe_def pushCleanup_def list_all_iff)

lemma registered_frame:
  assumes "registered s" "listeners s' = listeners s" "cleanupRef s' = cleanupRef s"
  shows "registered s'"
  using assms by (simp add: registered_def)

lemma joinRoom_000_unfold:
  assumes "rid \<noteq> []" "\<not> setFails e (ParticipantPath rid (userIdRef s))"
  shows "snd (joinRoom_000 e rid s) =
     (let s0 = (if inRoom s then snd (leaveRoom_000 e s) else s);
          s2 = armDisconnect e rid (writePresence e rid (openRoom rid s0));
          s4 = pushCleanup (Closer (fst (subscribe (ParticipantsPath rid) ParticipantsCallback False None s2)))
                 (snd (subscribe (ParticipantsPath rid) ParticipantsCallback False None s2));
          s6 = pushCleanup (Closer (fst (subscribe (MessagesPath rid) MessagesCallback False (Some 200) s4)))
                 (snd (subscribe (MessagesPath rid) MessagesCallback False (Some 200) s4))
      in pushCleanup (Closer (fst (subscribe (RoomPath rid) EnsureRoomCallback True None s6)))
                 (snd (subscribe (RoomPath rid) EnsureRoomCallback True None s6)))"
  using assms by (simp add: joinRoom_000_def Let_def split: prod.splits)

lemma registered_joinRoom_000:
  assumes "registered s" "quiet e"
  shows "registered (snd (joinRoom_000 e rid s))"
proof (cases "rid = []")
  case True
  then show ?thesis using assms(1) by (simp add: joinRoom_000_def registered_def)
next
  case rid: False
  let ?s0 = "if inRoom s then snd (leaveRoom_000 e s) else s"
  have r0: "registered ?s0" using assms registered_leaveRoom_000 by simp
  have r1: "registered (writePresence e rid (openRoom rid ?s0))"
    by (rule registered_frame [OF r0]) (simp_all add: piece_defs)
  show ?thesis
  proof (cases "setFails e (ParticipantPath rid (userIdRef s))")
    case True
    then show ?thesis using rid r1 by (simp add: joinRoom_000_def Let_def)
  next
    case False
    have r2: "registered (armDisconnect e rid (writePresence e rid (openRoom rid ?s0)))"
      by (rule registered_frame [OF r1]) (simp_all add: piece_defs)
    show ?thesis
      unfolding joinRoom_000_unfold [OF rid False] Let_def
      by (intro registered_subscribe r2)
  qed
qed

lemma registered_deliver: "registered s \<Longrightarrow> registered (deliver e h n s)"
  by (cases n)
     (auto simp: deliver_def registered_def piece_defs list_all_iff split: option.splits)

lemma registered_sendMessage_000: "registered s \<Longrightarrow> registered (snd (sendMessage_000 e s))"
  by (simp add: sendMessage_000_def registered_def writeMessage_def Let_def)

lemma registered_createRoom_000:
  assumes "registered s" "quiet e"
  shows "registered (snd (createRoom_000 e s))"
proof -
  have "registered (s\<lparr>roomId := randomId e,
          feedLog := feedLog s @ [SetAt (RoomPath (randomId e)) (RoomRecord (now e))]\<rparr>)"
    by (rule registered_frame [OF assms(1)]) simp_all
  then show ?thesis
    using registered_joinRoom_000 [OF _ assms(2)] by (simp add: createRoom_000_def Let_def)
qed

lemma registered_step:
  assumes "registered s" "quiet (fst ev)"
  shows "registered (step Part000 s ev)"
proof -
  obtain e i where ev: "ev = (e, i)" by (cases ev)
  show ?thesis
    using assms ev
    by (cases i)
       (simp_all add: registered_joinRoom_000 registered_leaveRoom_000 registered_deliver
          registered_sendMessage_000 registered_createRoom_000,
        simp_all add: registered_def)
qed

lemma registered_run:
  assumes "registered s" "list_all (\<lambda>ev. quiet (fst ev)) evs"
  shows "registered (run Part000 s evs)"
  using assms unfolding run_def
  by (induction evs arbitrary: s) (simp_all add: registered_step)

lemma registered_initial: "registered (initial uid nm)"
  by (simp add: registered_def initial_def)

text \<open>
  Part_000: with a quiet database, whatever happened since the start, a leave that is
  carried out leaves no listener behind, and a join from inside a room ends with the
  three listeners of the new room and no other.
\<close>

lemma leave_000_no_orphans:
  assumes "list_all (\<lambda>ev. quiet (fst ev)) evs" "quiet e"
    "inRoom (run Part000 (initial uid nm) evs)" "roomId (run Part000 (initial uid nm) evs) \<noteq> []"
  shows "listeners (run Part000 (initial uid nm) (evs @ [(e, LeaveRoom)])) = []"
  using leaveRoom_000_closes_all [OF registered_run [OF registered_initial assms(1)] assms(2,3,4)]
  by (simp add: run_def)

lemma joinRoom_000_from_room:
  assumes "registered s" "quiet e" "inRoom s" "roomId s \<noteq> []"
    "rid \<noteq> []" "\<not> setFails e (ParticipantPath rid (userIdRef s))"
  shows "listeners (snd (joinRoom_000 e rid s)) =
           [\<lparr>handle = nextHandle s, target = ParticipantsPath rid,
              callback = ParticipantsCallback, onlyOnce = False, limitToLast = None\<rparr>,
            \<lparr>handle = Suc (nextHandle s), target = MessagesPath rid,
              callback = MessagesCallback, onlyOnce = False, limitToLast = Some 200\<rparr>,
            \<lparr>handle = Suc (Suc (nextHandle s)), target = RoomPath rid,
              callback = EnsureRoomCallback, onlyOnce = True, limitToLast = None\<rparr>] \<and>
         roomId (snd (joinRoom_000 e rid s)) = rid \<and> inRoom (snd (joinRoom_000 e rid s))"
proof -
  let ?s0 = "snd (leaveRoom_000 e s)"
  have l0: "listeners ?s0 = []"
    using leaveRoom_000_closes_all [OF assms(1-4)] by simp
  have "nextHandle (foldl (runOne e) t cs) = nextHandle t" for t cs
  proof (induction cs arbitrary: t)
    case Nil
    then show ?case by simp
  next
    case (Cons c cs)
    then show ?case by (cases c) (simp_all add: piece_defs)
  qed
  then have n0: "nextHandle ?s0 = nextHandle s"
    using assms(3,4) by (simp add: leaveRoom_000_def resetRoom_def runCleanup_def removePresence_def)
  show ?thesis
    unfolding joinRoom_000_unfold [OF assms(5,6)]
    using assms(3) l0 n0 by (simp add: Let_def piece_defs)
qed

text \<open>
  A throwing unsubscribe function: in part_000 the listener of handle 0 stays and the
  two others are closed all the same.
\<close>

lemma runCleanup_one_throws:
  "map handle (listeners (run Part000 (initial ''u1'' ''ann'')
       [(env_ok, JoinRoom ''r1''), (env_throw, LeaveRoom)])) = [0] \<and>
   cleanupRef (run Part000 (initial ''u1'' ''ann'')
       [(env_ok, JoinRoom ''r1''), (env_throw, LeaveRoom)]) = []"
  by (simp add: machine_defs piece_defs env_ok_def env_throw_def Let_def)

subsection \<open>Leaving and joining again in src/src/App.jsx\<close>

text \<open>
  C3, on \<^verbatim>\<open>src/src/App.jsx\<close>: after a join of room r1 and a leave, the three listeners
  of r1 are still registered, and a message of r1 notified afterwards is appended to
  the local messages of the session that has left.
\<close>

theorem leaveRoom_orphans_listeners:
  "map target (listeners (run App (initial ''u1'' ''ann'')
       [(env_ok, JoinRoom ''r1''), (env_ok, LeaveRoom)])) =
     [ParticipantsPath ''r1'', MessagesPath ''r1'', RoomPath ''r1''] \<and>
   inRoom (run App (initial ''u1'' ''ann'')
       [(env_ok, JoinRoom ''r1''), (env_ok, LeaveRoom)]) = False \<and>
   map msg_id (messages (run App (initial ''u1'' ''ann'')
       [(env_ok, JoinRoom ''r1''), (env_ok, LeaveRoom),
        (env_ok, Deliver 1 (ChildAdded ''k1'' (Some hi)))])) = [''k1'']"
  by (simp add: machine_defs piece_defs env_ok_def hi_def Let_def messageAdded_def
      appendMessage_def)

text \<open>
  In general \<^verbatim>\<open>leaveRoom\<close> of \<^verbatim>\<open>src/src/App.jsx\<close> keeps every listener, and \<^verbatim>\<open>joinRoom\<close>
  adds its three to those that were there (\<open>listeners_joinRoom\<close>).
\<close>

lemma leaveRoom_keeps_listeners: "listeners (snd (leaveRoom s)) = listeners s"
  by (simp add: leaveRoom_def resetRoom_def removePresence_def)

text \<open>The same inputs on the two other variants: no listener is left.\<close>

lemma leaveRoom_closes_000_001:
  "listeners (run Part000 (initial ''u1'' ''ann'')
       [(env_ok, JoinRoom ''r1''), (env_ok, LeaveRoom)]) = [] \<and>
   listeners (run Part001 (initial ''u1'' ''ann'')
       [(env_ok, JoinRoom ''r1''), (env_ok, LeaveRoom)]) = []"
  by (simp add: machine_defs piece_defs env_ok_def Let_def)

text \<open>
  C4, on \<^verbatim>\<open>src/src/App.jsx\<close>: a join of room B from inside room A leaves the three
  listeners of A registered beside those of B and never removes the presence record
  of A.
\<close>

theorem joinRoom_keeps_previous_room:
  "map target (listeners (run App (initial ''u1'' ''ann'')
       [(env_ok, JoinRoom ''A''), (env_ok, JoinRoom ''B'')])) =
     [ParticipantsPath ''A'', MessagesPath ''A'', RoomPath ''A'',
      ParticipantsPath ''B'', MessagesPath ''B'', RoomPath ''B''] \<and>
   length (filter (\<lambda>l. room_of (target l) = ''A'') (listeners (run App (initial ''u1'' ''ann'')
       [(env_ok, JoinRoom ''A''), (env_ok, JoinRoom ''B'')]))) = 3 \<and>
   roomId (run App (initial ''u1'' ''ann'')
       [(env_ok, JoinRoom ''A''), (env_ok, JoinRoom ''B'')]) = ''B'' \<and>
   feedLog (run App (initial ''u1'' ''ann'')
       [(env_ok, JoinRoom ''A''), (env_ok, JoinRoom ''B'')]) =
     [SetAt (ParticipantPath ''A'' ''u1'')
        (ParticipantRecord \<lparr>pid = ''u1'', pname = ''ann'', joinedAt = 1000\<rparr>),
      OnDisconnectRemove (ParticipantPath ''A'' ''u1''),
      SetAt (ParticipantPath ''B'' ''u1'')
        (ParticipantRecord \<lparr>pid = ''u1'', pname = ''ann'', joinedAt = 1000\<rparr>),
      OnDisconnectRemove (ParticipantPath ''B'' ''u1'')]"
  by (simp add: machine_defs piece_defs env_ok_def Let_def)

text \<open>
  The same inputs on part_000 end with the listeners of B only, after the presence
  record of A was removed; on part_001 the listeners of A stay, as in
  \<^verbatim>\<open>src/src/App.jsx\<close>.
\<close>

lemma joinRoom_twice_000_001:
  "map target (listeners (run Part000 (initial ''u1'' ''ann'')
       [(env_ok, JoinRoom ''A''), (env_ok, JoinRoom ''B'')])) =
     [ParticipantsPath ''B'', MessagesPath ''B'', RoomPath ''B''] \<and>
   RemoveAt (ParticipantPath ''A'' ''u1'') \<in> set (feedLog (run Part000 (initial ''u1'' ''ann'')
       [(env_ok, JoinRoom ''A''), (env_ok, JoinRoom ''B'')])) \<and>
   map target (listeners (run Part001 (initial ''u1'' ''ann'')
       [(env_ok, JoinRoom ''A''), (env_ok, JoinRoom ''B'')])) =
     [ParticipantsPath ''A'', MessagesPath ''A'', RoomPath ''A'',
      ParticipantsPath ''B'', MessagesPath ''B'', RoomPath ''B'']"
  by (simp add: machine_defs piece_defs env_ok_def Let_def)

subsection \<open>Duplicates\<close>

text \<open>
  C5. A child-added notification whose id is already in the local list is discarded
  and the list is unchanged; delivering the same notification twice is the same as
  delivering it once, and leaves exactly one entry with that id in a list without
  duplicates; in every state any of the three variants reaches from the initial one,
  under any intents, notifications and answers of the database, no two messages have
  the same id.
\<close>

theorem messages_dedup:
  "(list_ex (\<lambda>m. msg_id m = key) prev \<longrightarrow> messageAdded key val prev = prev) \<and>
   messageAdded key val (messageAdded key val prev) = messageAdded key val prev \<and>
   (distinct (map msg_id prev) \<longrightarrow>
      length (filter (\<lambda>m. msg_id m = key)
                (messageAdded key (Some p) (messageAdded key (Some p) prev))) = 1) \<and>
   distinct (map msg_id (messages (run v (initial uid nm) evs)))"
  using messageAdded_present [of key prev val] messageAdded_twice [of key "Some p" prev]
    count_messageAdded [of prev key p] distinct_run [of "initial uid nm" v evs]
  by (simp add: list_ex_msg_id messageAdded_twice messages_initial)

theorem messages_dedup_witness:
  "messageAdded ''k1'' (Some hi) (messageAdded ''k1'' (Some hi) []) = messageAdded ''k1'' (Some hi) [] \<and>
   messageAdded ''k1'' None (messageAdded ''k1'' (Some hi) []) = messageAdded ''k1'' (Some hi) [] \<and>
   length (filter (\<lambda>m. msg_id m = ''k1'')
      (messageAdded ''k1'' (Some hi) (messageAdded ''k1'' (Some hi) []))) = 1 \<and>
   distinct (map msg_id (messages (run App (initial ''u1'' ''ann'')
           [(env_ok, JoinRoom ''r1''),
            (env_ok, Deliver 1 (ChildAdded ''k1'' (Some hi))),
            (env_ok, Deliver 1 (ChildAdded ''k1'' (Some hi)))])))"
  using messages_dedup [where key = "''k1''" and prev = "messageAdded ''k1'' (Some hi) []"
      and val = "Some hi" and p = hi and v = App and uid = "''u1''" and nm = "''ann''"
      and evs = "[(env_ok, JoinRoom ''r1''),
            (env_ok, Deliver 1 (ChildAdded ''k1'' (Some hi))),
            (env_ok, Deliver 1 (ChildAdded ''k1'' (Some hi)))]"]
    messages_dedup [where key = "''k1''" and prev = "messageAdded ''k1'' (Some hi) []"
      and val = "None" and p = hi and v = App and uid = "''u1''" and nm = "''ann''" and evs = "[]"]
  by (simp add: messageAdded_def appendMessage_def)

subsection \<open>Order\<close>

text \<open>
  C6. When the ids of a sorted local list followed by the keys of the incoming
  child-added notifications are in ascending order (for the empty list: the keys are),
  the local list is sorted by id after each notification (after the first \<open>n\<close>, for
  every \<open>n\<close>), and stays free of duplicates; a notification leaves the list as it is or
  appends one message with the notification's key at the end. The list meant is the
  one the component holds after the notifications came through a registered message
  listener.
\<close>

theorem messages_sorted:
  assumes "sorted (map msg_id prev @ map fst ns)"
  shows "sorted (map msg_id (applyAdded prev (take n ns))) \<and>
         (distinct (map msg_id prev) \<longrightarrow> distinct (map msg_id (applyAdded prev (take n ns)))) \<and>
         (messageAdded key val prev = prev \<or>
          (\<exists>m. messageAdded key val prev = prev @ [m] \<and> msg_id m = key)) \<and>
         (find (\<lambda>l. handle l = h) (listeners s) = Some l \<and> callback l = MessagesCallback \<and>
          messages s = prev \<longrightarrow>
            messages (run v s (deliverAll e h (take n ns))) = applyAdded prev (take n ns))"
proof -
  have "sorted (map msg_id (applyAdded prev (take n ns)))"
    using assms by (intro sorted_applyAdded sorted_take_keys)
  moreover have "messageAdded key val prev = prev \<or>
          (\<exists>m. messageAdded key val prev = prev @ [m] \<and> msg_id m = key)"
    by (cases val) (auto simp: messageAdded_def appendMessage_def)
  moreover have "messages (run v s (deliverAll e h (take n ns))) = applyAdded prev (take n ns)"
    if "find (\<lambda>l. handle l = h) (listeners s) = Some l" "callback l = MessagesCallback"
      "messages s = prev"
    using run_deliverAll [OF that(1,2), of v e "take n ns"] that(3) by simp
  ultimately show ?thesis by (simp add: distinct_applyAdded)
qed

theorem messages_sorted_witness:
  "sorted (map msg_id (applyAdded [] (take 2 (added 3)))) \<and>
   distinct (map msg_id (applyAdded [] (take 2 (added 3)))) \<and>
   map msg_id (applyAdded [] (take 2 (added 3))) = [''a'', ''aa''] \<and>
   messageAdded ''a'' (Some hi) [] =
     [] @ [\<lparr>fromId = ''u2'', fromName = ''bob'', body = ''hi'', sentAt = 990, msg_id = ''a''\<rparr>] \<and>
   map msg_id (messages (run App (snd (joinRoom env_ok ''r1'' (initial ''u1'' ''ann'')))
      (deliverAll env_ok 1 (take 2 (added 3))))) = [''a'', ''aa'']"
  using messages_sorted [where prev = "[]" and ns = "added 3" and n = 2 and key = "''a''"
      and val = "Some hi" and h = 1 and s = "snd (joinRoom env_ok ''r1'' (initial ''u1'' ''ann''))"
      and l = "\<lparr>handle = Suc 0, target = MessagesPath ''r1'', callback = MessagesCallback,
                 onlyOnce = False, limitToLast = Some 200\<rparr>" and v = App and e = env_ok]
    sorted_added3 ids_added3 joined_listeners
  by (simp add: messageAdded_def appendMessage_def hi_def messages_joinRoom messages_initial)

subsection \<open>Participants\<close>

text \<open>
  C7. A participants snapshot delivered through a registered participants listener
  changes nothing but the local participants, which become exactly the snapshot's
  value: a participant absent from it is absent locally, whatever an earlier snapshot
  held.
\<close>

theorem participants_replaced:
  assumes "find (\<lambda>l. handle l = h) (listeners s) = Some l" "callback l = ParticipantsCallback"
  shows "deliver e h (ParticipantsSnapshot (Some m)) s = s\<lparr>participants := m\<rparr> \<and>
         participants (deliver e h (ParticipantsSnapshot (Some m)) s) = m \<and>
         (m u = None \<longrightarrow> participants (deliver e h (ParticipantsSnapshot (Some m)) s) u = None) \<and>
         participants (deliver e' h (ParticipantsSnapshot (Some m))
                        (deliver e h (ParticipantsSnapshot v) s)) = m"
proof -
  have 1: "deliver e h (ParticipantsSnapshot (Some m)) s = s\<lparr>participants := m\<rparr>"
    using deliver_participants [OF assms, of e "Some m"] by (simp add: participantsValue_def)
  have 2: "deliver e h (ParticipantsSnapshot v) s = s\<lparr>participants := participantsValue v\<rparr>"
    using assms by (rule deliver_participants)
  have 3: "deliver e' h (ParticipantsSnapshot (Some m)) (s\<lparr>participants := participantsValue v\<rparr>)
           = s\<lparr>participants := participantsValue v\<rparr>\<lparr>participants := participantsValue (Some m)\<rparr>"
    using assms by (intro deliver_participants) simp_all
  have 4: "participantsValue (Some m) = m" by (simp add: participantsValue_def)
  show ?thesis by (simp add: 1 2 3 4)
qed

theorem participants_replaced_witness:
  "participants (deliver env_ok 0 (ParticipantsSnapshot (Some [''u1'' \<mapsto> ann]))
       (deliver env_ok 0 (ParticipantsSnapshot (Some [''u1'' \<mapsto> ann, ''u2'' \<mapsto> bob]))
          (snd (joinRoom env_ok ''r1'' (initial ''u1'' ''ann''))))) = [''u1'' \<mapsto> ann] \<and>
   participants (deliver env_ok 0 (ParticipantsSnapshot (Some [''u1'' \<mapsto> ann]))
          (snd (joinRoom env_ok ''r1'' (initial ''u1'' ''ann'')))) ''u2'' = None"
  using participants_replaced [OF joined_listener0, where m = "[''u1'' \<mapsto> ann]" and u = "''u2''"
      and e = env_ok and e' = env_ok and v = "Some [''u1'' \<mapsto> ann, ''u2'' \<mapsto> bob]"]
  by simp

text \<open>
  C10. A null participants snapshot sets the local participants to the empty map,
  whatever they were before.
\<close>

theorem participants_null_snapshot:
  assumes "find (\<lambda>l. handle l = h) (listeners s) = Some l" "callback l = ParticipantsCallback"
  shows "participantsValue None = Map.empty \<and>
         deliver e h (ParticipantsSnapshot None) s = s\<lparr>participants := Map.empty\<rparr> \<and>
         participants (deliver e h (ParticipantsSnapshot None) s) = Map.empty \<and>
         dom (participants (deliver e h (ParticipantsSnapshot None) s)) = {}"
  using deliver_participants [OF assms, of e None] by (simp add: participantsValue_def)

theorem participants_null_snapshot_witness:
  "participants (deliver env_ok 0 (ParticipantsSnapshot None)
       (deliver env_ok 0 (ParticipantsSnapshot (Some [''u1'' \<mapsto> ann]))
          (snd (joinRoom env_ok ''r1'' (initial ''u1'' ''ann''))))) = Map.empty"
proof -
  let ?s = "deliver env_ok 0 (ParticipantsSnapshot (Some [''u1'' \<mapsto> ann]))
          (snd (joinRoom env_ok ''r1'' (initial ''u1'' ''ann'')))"
  have "?s = (snd (joinRoom env_ok ''r1'' (initial ''u1'' ''ann'')))\<lparr>participants := participantsValue (Some [''u1'' \<mapsto> ann])\<rparr>"
    by (rule deliver_participants [OF joined_listener0]) simp
  then have "find (\<lambda>l. handle l = 0) (listeners ?s) =
     Some \<lparr>handle = 0, target = ParticipantsPath ''r1'',
              callback = ParticipantsCallback, onlyOnce = False, limitToLast = None\<rparr>"
    using joined_listener0 by simp
  from participants_null_snapshot [OF this, of env_ok] show ?thesis by simp
qed

subsection \<open>Sending\<close>

text \<open>
  C8. When the session is not in a room, or the text is empty or white space only,
  \<^verbatim>\<open>sendMessage\<close> resolves, attempts no write and leaves the state as it is (in part_000
  it shows an alert when not in a room, and changes nothing else); and no send,
  rejected or not, changes the local messages or participants.
\<close>

theorem sendMessage_rejected:
  "(\<not> inRoom s \<or> (\<forall>c\<in>set (localText s). isWhiteSpace c) \<longrightarrow>
      sendMessage e s = (Inr (), s) \<and>
      fst (sendMessage_000 e s) = Inr () \<and>
      feedLog (snd (sendMessage_000 e s)) = feedLog s \<and>
      (snd (sendMessage_000 e s))\<lparr>alerts := alerts s\<rparr> = s) \<and>
   messages (snd (sendMessage e s)) = messages s \<and>
   messages (snd (sendMessage_000 e s)) = messages s \<and>
   participants (snd (sendMessage e s)) = participants s \<and>
   participants (snd (sendMessage_000 e s)) = participants s"
  by (auto simp: sendMessage_def sendMessage_000_def writeMessage_def Let_def trim_empty_iff)

theorem sendMessage_rejected_witness:
  "sendMessage env_ok ((initial ''u1'' ''ann'')\<lparr>localText := ''hello''\<rparr>) =
     (Inr (), (initial ''u1'' ''ann'')\<lparr>localText := ''hello''\<rparr>) \<and>
   sendMessage env_ok ((snd (joinRoom env_ok ''r1'' (initial ''u1'' ''ann'')))\<lparr>localText := ''  ''\<rparr>) =
     (Inr (), (snd (joinRoom env_ok ''r1'' (initial ''u1'' ''ann'')))\<lparr>localText := ''  ''\<rparr>) \<and>
   feedLog (snd (sendMessage_000 env_ok ((initial ''u1'' ''ann'')\<lparr>localText := ''hello''\<rparr>))) = []"
  using sendMessage_rejected [of "(initial ''u1'' ''ann'')\<lparr>localText := ''hello''\<rparr>" env_ok]
    sendMessage_rejected [of "(snd (joinRoom env_ok ''r1'' (initial ''u1'' ''ann'')))\<lparr>localText := ''  ''\<rparr>" env_ok]
  by (simp add: initial_def isWhiteSpace_def)

subsection \<open>Leaving outside a room\<close>

text \<open>
  C9. When the session is not in a room \<^verbatim>\<open>leaveRoom\<close> resolves and changes nothing,
  no write included; it never rejects; and a second \<^verbatim>\<open>leaveRoom\<close> after a first one
  changes nothing.
\<close>

theorem leaveRoom_idle:
  "(\<not> inRoom s \<longrightarrow>
      leaveRoom s = (Inr (), s) \<and> leaveRoom_000 e s = (Inr (), s) \<and>
      leaveRoom_001 e s = (Inr (), s)) \<and>
   fst (leaveRoom s) = Inr () \<and> fst (leaveRoom_000 e s) = Inr () \<and>
   fst (leaveRoom_001 e s) = Inr () \<and>
   leaveRoom (snd (leaveRoom s)) = (Inr (), snd (leaveRoom s)) \<and>
   leaveRoom_000 e' (snd (leaveRoom_000 e s)) = (Inr (), snd (leaveRoom_000 e s)) \<and>
   leaveRoom_001 e' (snd (leaveRoom_001 e s)) = (Inr (), snd (leaveRoom_001 e s))"
  by (simp add: leaveRoom_def leaveRoom_000_def leaveRoom_001_def inRoom_resetRoom)

theorem leaveRoom_idle_witness:
  "leaveRoom (initial ''u1'' ''ann'') = (Inr (), initial ''u1'' ''ann'') \<and>
   leaveRoom_000 env_throw (initial ''u1'' ''ann'') = (Inr (), initial ''u1'' ''ann'') \<and>
   leaveRoom_001 env_throw (initial ''u1'' ''ann'') = (Inr (), initial ''u1'' ''ann'')"
  using leaveRoom_idle [of "initial ''u1'' ''ann''" env_throw]
  by (simp add: initial_def)

end
